theory Spec2Isabelle
  imports
    Complex_Main
    "HOL-Library.Char_ord"
    "HOL-Library.List_Lexorder"
    "HOL-Library.Product_Lexorder"
begin

section \<open>Floating-point columns\<close>

text \<open>
  The numeric columns of the data frames hold 64-bit floats. A value is either a number
  or NaN, the marker pandas uses for "undefined". Arithmetic with NaN gives NaN and every
  ordering comparison with NaN is false. Numbers are modelled as exact reals: rounding,
  overflow and the infinities are outside the model.
\<close>

datatype float64 = NaN | Fin real

fun fadd :: "float64 \<Rightarrow> float64 \<Rightarrow> float64" where
  "fadd (Fin a) (Fin b) = Fin (a + b)"
| "fadd _ _ = NaN"

fun fsub :: "float64 \<Rightarrow> float64 \<Rightarrow> float64" where
  "fsub (Fin a) (Fin b) = Fin (a - b)"
| "fsub _ _ = NaN"

fun fmul :: "float64 \<Rightarrow> float64 \<Rightarrow> float64" where
  "fmul (Fin a) (Fin b) = Fin (a * b)"
| "fmul _ _ = NaN"

fun fsqrt :: "float64 \<Rightarrow> float64" where
  "fsqrt (Fin a) = (if a < 0 then NaN else Fin (sqrt a))"
| "fsqrt NaN = NaN"

fun fgt :: "float64 \<Rightarrow> float64 \<Rightarrow> bool" where
  "fgt (Fin a) (Fin b) = (a > b)"
| "fgt _ _ = False"

fun flt :: "float64 \<Rightarrow> float64 \<Rightarrow> bool" where
  "flt (Fin a) (Fin b) = (a < b)"
| "flt _ _ = False"

fun fle :: "float64 \<Rightarrow> float64 \<Rightarrow> bool" where
  "fle (Fin a) (Fin b) = (a \<le> b)"
| "fle _ _ = False"

section \<open>Data frames\<close>

text \<open>
  One row of the uploaded CSV. No cell of the file is taken to be blank: every row has a
  city, a timestamp and a season, and the temperature column has no missing values, so a
  temperature is a real; NaN only arises in computed columns.
\<close>

record reading =
  city :: string
  timestamp :: int
  season :: string
  temperature :: real

text \<open>
  The frame that \<open>calculate_moving_average\<close> and \<open>detect_anomalies\<close> work on. Both
  assign columns to the frame they are given and return that same frame, so the value
  returned is also the state of the caller's frame after the call. A column that has not
  been assigned yet is \<open>None\<close>.
\<close>

record frame =
  rows :: "reading list"
  moving_avg :: "float64 list option"
  moving_std :: "float64 list option"
  anomaly :: "bool list option"

text \<open>The exceptions the modelled code can raise.\<close>

datatype error = ValueError | KeyError | IndexError | TypeError

section \<open>Rolling statistics\<close>

text \<open>
  \<open>Series.rolling(window).mean()\<close> and \<open>.std()\<close> of pandas: the window of position \<open>i\<close>
  holds the values at positions \<open>max 0 (i + 1 - window)\<close> to \<open>i\<close>; \<open>min_periods\<close> defaults
  to the window size; the mean needs at least one observation, the standard deviation
  (\<open>ddof = 1\<close>) more than one, and a window with too few observations gives NaN.
\<close>

definition window_values :: "real list \<Rightarrow> nat \<Rightarrow> nat \<Rightarrow> real list" where
  "window_values xs w i = drop (Suc i - w) (take (Suc i) xs)"

definition mean_of :: "real list \<Rightarrow> real" where
  "mean_of ws = sum_list ws / real (length ws)"

definition var_of :: "nat \<Rightarrow> real list \<Rightarrow> real" where
  "var_of ddof ws = (\<Sum>x\<leftarrow>ws. (x - mean_of ws)\<^sup>2) / real (length ws - ddof)"

definition rolling_mean :: "real list \<Rightarrow> nat \<Rightarrow> float64 list" where
  "rolling_mean xs w =
     map (\<lambda>i. let ws = window_values xs w i
              in if w \<le> length ws \<and> 0 < length ws then Fin (mean_of ws) else NaN)
       [0..<length xs]"

definition rolling_std :: "real list \<Rightarrow> nat \<Rightarrow> float64 list" where
  "rolling_std xs w =
     map (\<lambda>i. let ws = window_values xs w i
              in if w \<le> length ws \<and> 1 < length ws then fsqrt (Fin (var_of 1 ws)) else NaN)
       [0..<length xs]"

text \<open>
  \<open>rolling\<close> rejects a negative window with a \<open>ValueError\<close> before anything is assigned.
\<close>

definition calculate_moving_average :: "frame \<Rightarrow> int \<Rightarrow> error + frame" where
  "calculate_moving_average data window =
     (if window < 0 then Inl ValueError
      else
        let data = data\<lparr>moving_avg :=
                     Some (rolling_mean (map temperature (rows data)) (nat window))\<rparr>;
            data = data\<lparr>moving_std :=
                     Some (rolling_std (map temperature (rows data)) (nat window))\<rparr>
        in Inr data)"

section \<open>Anomaly detection\<close>

definition is_anomaly :: "real \<Rightarrow> float64 \<Rightarrow> float64 \<Rightarrow> bool" where
  "is_anomaly t avg sd =
     (fgt (Fin t) (fadd avg (fmul (Fin 2) sd)) \<or> flt (Fin t) (fsub avg (fmul (Fin 2) sd)))"

text \<open>Reading a column that was never assigned raises \<open>KeyError\<close>.\<close>

definition detect_anomalies :: "frame \<Rightarrow> error + frame" where
  "detect_anomalies data =
     (case moving_avg data of
        None \<Rightarrow> Inl KeyError
      | Some avgs \<Rightarrow>
          (case moving_std data of
             None \<Rightarrow> Inl KeyError
           | Some stds \<Rightarrow>
               Inr (data\<lparr>anomaly :=
                      Some (map (\<lambda>(t, avg, sd). is_anomaly t avg sd)
                              (zip (map temperature (rows data)) (zip avgs stds)))\<rparr>)))"

definition parallel_analyze :: "frame \<Rightarrow> error + frame" where
  "parallel_analyze city_data =
     (case calculate_moving_average city_data 30 of
        Inl e \<Rightarrow> Inl e
      | Inr city_data \<Rightarrow> detect_anomalies city_data)"

section \<open>Seasonal statistics\<close>

record seasonal_stat =
  s_city :: string
  s_season :: string
  mean :: float64
  std :: float64

text \<open>
  \<open>groupby(['city', 'season'])['temperature'].agg(['mean', 'std']).reset_index()\<close>: one
  row per key that occurs, keys in ascending order, the mean and the sample standard
  deviation (\<open>ddof = 1\<close>, NaN for fewer than two values) of the group's temperatures.
\<close>

definition group_key :: "reading \<Rightarrow> string \<times> string" where
  "group_key r = (city r, season r)"

definition group_values :: "reading list \<Rightarrow> string \<times> string \<Rightarrow> real list" where
  "group_values data k = map temperature (filter (\<lambda>r. group_key r = k) data)"

definition agg_mean :: "real list \<Rightarrow> float64" where
  "agg_mean ts = (if ts = [] then NaN else Fin (mean_of ts))"

definition agg_std :: "real list \<Rightarrow> float64" where
  "agg_std ts = (if length ts \<le> 1 then NaN else fsqrt (Fin (var_of 1 ts)))"

definition seasonal_statistics :: "reading list \<Rightarrow> seasonal_stat list" where
  "seasonal_statistics data =
     map (\<lambda>k. \<lparr>s_city = fst k, s_season = snd k,
               mean = agg_mean (group_values data k), std = agg_std (group_values data k)\<rparr>)
       (sort (remdups (map group_key data)))"

section \<open>Live temperature monitoring\<close>

text \<open>
  What \<open>fetch_temperature_sync\<close> returns: the number found in the response body, the
  dictionary built for status 401, or \<open>None\<close>. The HTTP response is a parameter of the
  model.
\<close>

record response =
  status_code :: int
  body_temp :: real

datatype fetch_result = Temp real | ErrorDict int string | NoneValue

definition fetch_temperature_sync :: "response \<Rightarrow> fetch_result" where
  "fetch_temperature_sync resp =
     (if status_code resp = 200 then Temp (body_temp resp)
      else if status_code resp = 401 then
        ErrorDict 401
          ''Invalid API key. Please see https://openweathermap.org/faq#error401 for more info.''
      else NoneValue)"

text \<open>The lines that \<open>main\<close> writes in its monitoring section.\<close>

datatype message =
  CurrentTemperature string fetch_result
| WithinNormalRange
| OutsideNormalRange
| FailedToFetch

definition in_normal_range :: "float64 \<Rightarrow> float64 \<Rightarrow> real \<Rightarrow> bool" where
  "in_normal_range mean_temp std_temp current_temp =
     (let lower_bound = fsub mean_temp (fmul (Fin 2) std_temp);
          upper_bound = fadd mean_temp (fmul (Fin 2) std_temp)
      in fle lower_bound (Fin current_temp) \<and> fle (Fin current_temp) upper_bound)"

text \<open>
  The body of \<open>if api_key:\<close> in \<open>main\<close>. The result is the list of lines written, and the
  exception that ended the section, if any: \<open>.iloc[0]\<close> on an empty slice and
  \<open>.values[0]\<close> on an empty selection raise \<open>IndexError\<close>, and comparing a float with a
  dictionary raises \<open>TypeError\<close>.
\<close>

definition current_temperature_monitoring ::
  "frame \<Rightarrow> seasonal_stat list \<Rightarrow> string \<Rightarrow> fetch_result \<Rightarrow> message list \<times> error option" where
  "current_temperature_monitoring city_data season_stats c current_temp =
     (if current_temp \<noteq> NoneValue then
        (case rows city_data of
           [] \<Rightarrow> ([CurrentTemperature c current_temp], Some IndexError)
         | r # _ \<Rightarrow>
             (case filter (\<lambda>st. s_city st = c \<and> s_season st = season r) season_stats of
                [] \<Rightarrow> ([CurrentTemperature c current_temp], Some IndexError)
              | stats # _ \<Rightarrow>
                  (case current_temp of
                     Temp t \<Rightarrow>
                       if in_normal_range (mean stats) (std stats) t
                       then ([CurrentTemperature c current_temp, WithinNormalRange], None)
                       else ([CurrentTemperature c current_temp, OutsideNormalRange], None)
                   | _ \<Rightarrow> ([CurrentTemperature c current_temp], Some TypeError))))
      else ([FailedToFetch], None))"

text \<open>
  \<open>main\<close> for an uploaded data set, a selected city and the response to the weather
  request, with a non-empty API key: the slice of the city, the two analysis passes, the
  seasonal statistics of the whole data set, then the monitoring section.
\<close>

definition main :: "reading list \<Rightarrow> string \<Rightarrow> response \<Rightarrow> message list \<times> error option" where
  "main data c resp =
     (let city_data = \<lparr>rows = filter (\<lambda>r. city r = c) data,
                       moving_avg = None, moving_std = None, anomaly = None\<rparr>
      in case calculate_moving_average city_data 30 of
           Inl e \<Rightarrow> ([], Some e)
         | Inr city_data \<Rightarrow>
             (case detect_anomalies city_data of
                Inl e \<Rightarrow> ([], Some e)
              | Inr city_data \<Rightarrow>
                  current_temperature_monitoring city_data (seasonal_statistics data) c
                    (fetch_temperature_sync resp)))"

section \<open>Sample data\<close>

text \<open>Small data sets on which the results below are instantiated.\<close>

definition sample_reading :: "string \<Rightarrow> int \<Rightarrow> string \<Rightarrow> real \<Rightarrow> reading" where
  "sample_reading c ts s t = \<lparr>city = c, timestamp = ts, season = s, temperature = t\<rparr>"

definition sample_frame :: "reading list \<Rightarrow> frame" where
  "sample_frame rs = \<lparr>rows = rs, moving_avg = None, moving_std = None, anomaly = None\<rparr>"

definition sample_data :: "reading list" where
  "sample_data =
     [sample_reading ''A'' 0 ''w'' 0, sample_reading ''B'' 0 ''w'' 7,
      sample_reading ''A'' 1 ''w'' 3, sample_reading ''A'' 2 ''w'' 6,
      sample_reading ''A'' 3 ''s'' 20, sample_reading ''A'' 4 ''s'' 23,
      sample_reading ''A'' 5 ''s'' 26]"

section \<open>Comparisons with NaN\<close>

lemma is_anomaly_iff:
  "is_anomaly t avg sd \<longleftrightarrow>
     (\<exists>m s. avg = Fin m \<and> sd = Fin s \<and> (t > m + 2 * s \<or> t < m - 2 * s))"
  by (cases avg; cases sd) (auto simp: is_anomaly_def)

lemma in_normal_range_iff:
  "in_normal_range mt sd t \<longleftrightarrow>
     (\<exists>m s. mt = Fin m \<and> sd = Fin s \<and> m - 2 * s \<le> t \<and> t \<le> m + 2 * s)"
  by (cases mt; cases sd) (auto simp: in_normal_range_def Let_def)

lemma fle_NaN: "\<not> fle NaN x" "\<not> fle x NaN"
  by (cases x; simp)+

lemma in_normal_range_NaN: "\<not> in_normal_range m NaN t"
  by (simp add: in_normal_range_iff)

section \<open>Rolling windows\<close>

lemma length_window_values:
  "i < length xs \<Longrightarrow> length (window_values xs w i) = min w (Suc i)"
  by (auto simp: window_values_def)

lemma window_values_nth:
  assumes "i < length xs" and "w \<le> Suc i"
  shows "window_values xs w i = map (\<lambda>j. xs ! j) [Suc i - w..<Suc i]"
proof -
  have "take (Suc i) xs = map (\<lambda>j. xs ! j) [0..<Suc i]"
    using assms(1) by (metis Suc_leI map_nth take_map take_upt plus_nat.add_0)
  then show ?thesis
    by (simp only: window_values_def drop_map drop_upt) simp
qed

lemma window_values_Nil:
  "i < length xs \<Longrightarrow> window_values xs w i = [] \<longleftrightarrow> w = 0"
  using length_window_values [of i xs w] by (metis length_0_conv min_0L min_def nat.distinct(1))

lemma length_rolling_mean [simp]: "length (rolling_mean xs w) = length xs"
  by (simp add: rolling_mean_def)

lemma length_rolling_std [simp]: "length (rolling_std xs w) = length xs"
  by (simp add: rolling_std_def)

lemma rolling_mean_nth:
  "i < length xs \<Longrightarrow>
   rolling_mean xs w ! i =
     (if w \<le> Suc i \<and> 0 < w then Fin (mean_of (window_values xs w i)) else NaN)"
  by (auto simp: rolling_mean_def Let_def length_window_values window_values_Nil)

lemma var_of_nonneg: "0 \<le> var_of d ws"
  unfolding var_of_def by (intro divide_nonneg_nonneg sum_list_nonneg) auto

lemma rolling_std_nth:
  "i < length xs \<Longrightarrow>
   rolling_std xs w ! i =
     (if w \<le> Suc i \<and> 1 < w then Fin (sqrt (var_of 1 (window_values xs w i))) else NaN)"
  using var_of_nonneg [of 1 "window_values xs w i"]
  by (auto simp: rolling_std_def Let_def length_window_values not_less)

lemma calculate_moving_average_Inr:
  "0 \<le> window \<Longrightarrow>
   calculate_moving_average data window =
     Inr (data\<lparr>moving_avg := Some (rolling_mean (map temperature (rows data)) (nat window)),
               moving_std := Some (rolling_std (map temperature (rows data)) (nat window))\<rparr>)"
  by (simp add: calculate_moving_average_def Let_def)

lemma sum_list_window:
  assumes "i < length xs" and "w \<le> Suc i"
  shows "sum_list (map f (window_values xs w i)) = (\<Sum>j = Suc i - w..i. f (xs ! j))"
proof -
  have "sum_list (map f (window_values xs w i)) = sum_list (map (\<lambda>j. f (xs ! j)) [Suc i - w..<Suc i])"
    by (simp add: window_values_nth [OF assms] comp_def)
  also have "\<dots> = (\<Sum>j \<in> {Suc i - w..<Suc i}. f (xs ! j))"
    by (simp add: interv_sum_list_conv_sum_set_nat)
  also have "{Suc i - w..<Suc i} = {Suc i - w..i}"
    by (rule atLeastLessThanSuc_atLeastAtMost)
  finally show ?thesis .
qed

lemma mean_of_window:
  assumes "i < length xs" and "w \<le> Suc i"
  shows "mean_of (window_values xs w i) = (\<Sum>j = Suc i - w..i. xs ! j) / real w"
  using sum_list_window [OF assms, of "\<lambda>x. x"] length_window_values [OF assms(1), of w] assms(2)
  by (simp add: mean_of_def min_def)

lemma var_of_window:
  assumes "i < length xs" and "w \<le> Suc i"
  shows "var_of 1 (window_values xs w i) =
         (\<Sum>j = Suc i - w..i. (xs ! j - (\<Sum>k = Suc i - w..i. xs ! k) / real w)\<^sup>2) / real (w - 1)"
  using sum_list_window [OF assms, of "\<lambda>x. (x - mean_of (window_values xs w i))\<^sup>2"]
    length_window_values [OF assms(1), of w] assms(2)
  by (simp add: var_of_def mean_of_window [OF assms] min_def)

section \<open>Groups and their statistics\<close>

lemma filter_eq_distinct:
  "distinct ks \<Longrightarrow> filter (\<lambda>k'. k' = k) ks = (if k \<in> set ks then [k] else [])"
  by (induction ks) auto

lemma seasonal_statistics_keys:
  "map (\<lambda>st. (s_city st, s_season st)) (seasonal_statistics data) =
     sort (remdups (map group_key data))"
  by (simp add: seasonal_statistics_def comp_def)

lemma seasonal_statistics_lookup:
  "filter (\<lambda>st. s_city st = c \<and> s_season st = s) (seasonal_statistics data) =
     (if (c, s) \<in> group_key ` set data
      then [\<lparr>s_city = c, s_season = s, mean = agg_mean (group_values data (c, s)),
              std = agg_std (group_values data (c, s))\<rparr>]
      else [])"
proof -
  let ?ks = "sort (remdups (map group_key data))"
  let ?F = "\<lambda>k. \<lparr>s_city = fst k, s_season = snd k,
               mean = agg_mean (group_values data k), std = agg_std (group_values data k)\<rparr>"
  have "filter (\<lambda>st. s_city st = c \<and> s_season st = s) (map ?F ?ks) =
        map ?F (filter (\<lambda>k. k = (c, s)) ?ks)"
    by (simp add: filter_map comp_def prod_eq_iff)
  also have "filter (\<lambda>k. k = (c, s)) ?ks = (if (c, s) \<in> set ?ks then [(c, s)] else [])"
    by (rule filter_eq_distinct) simp
  finally show ?thesis
    by (simp add: seasonal_statistics_def)
qed

lemma group_values_eq:
  "group_values data (c, s) = map temperature (filter (\<lambda>r. city r = c \<and> season r = s) data)"
  by (simp add: group_values_def group_key_def)

lemma agg_single: "agg_mean [x] = Fin x" "agg_std [x] = NaN"
  by (simp_all add: agg_mean_def agg_std_def mean_of_def)

lemma sqrt_9: "sqrt 9 = 3"
  using real_sqrt_abs [of 3] by simp

lemma sample_keys:
  "sort (remdups (map group_key sample_data)) = [(''A'', ''s''), (''A'', ''w''), (''B'', ''w'')]"
  by (simp add: sample_data_def sample_reading_def group_key_def)


lemma gv1: "group_values sample_data (''A'', ''w'') = [0, 3, 6]"
  by (simp add: sample_data_def sample_reading_def group_key_def group_values_def)

lemma gv2: "group_values sample_data (''A'', ''s'') = [20, 23, 26]"
  by (simp add: sample_data_def sample_reading_def group_key_def group_values_def)

lemma gv3: "group_values sample_data (''B'', ''w'') = [7]"
  by (simp add: sample_data_def sample_reading_def group_key_def group_values_def)

lemma agg1: "agg_mean [0, 3, 6] = Fin 3" "agg_std [0, 3, 6] = Fin 3"
  by (simp_all add: agg_mean_def agg_std_def mean_of_def var_of_def sqrt_9)

lemma agg2: "agg_mean [20, 23, 26] = Fin 23" "agg_std [20, 23, 26] = Fin 3"
  by (simp_all add: agg_mean_def agg_std_def mean_of_def var_of_def sqrt_9)

lemma agg3: "agg_mean [7] = Fin 7" "agg_std [7] = NaN"
  by (simp_all add: agg_mean_def agg_std_def mean_of_def)

lemma seasonal_statistics_sample:
  "seasonal_statistics sample_data =
     [\<lparr>s_city = ''A'', s_season = ''s'', mean = Fin 23, std = Fin 3\<rparr>,
      \<lparr>s_city = ''A'', s_season = ''w'', mean = Fin 3, std = Fin 3\<rparr>,
      \<lparr>s_city = ''B'', s_season = ''w'', mean = Fin 7, std = NaN\<rparr>]"
  unfolding seasonal_statistics_def sample_keys
  by (simp add: gv1 gv2 gv3 agg1 agg2 agg3)

section \<open>What main passes to the monitoring section\<close>

lemma monitoring_rows_cong:
  "rows a = rows b \<Longrightarrow>
   current_temperature_monitoring a stats c t = current_temperature_monitoring b stats c t"
  by (simp add: current_temperature_monitoring_def)

lemma detect_anomalies_after_baseline:
  "moving_avg d \<noteq> None \<Longrightarrow> moving_std d \<noteq> None \<Longrightarrow>
   \<exists>d'. detect_anomalies d = Inr d' \<and> rows d' = rows d"
  by (auto simp: detect_anomalies_def)

lemma main_eq:
  "main data c resp =
     current_temperature_monitoring (sample_frame (filter (\<lambda>r. city r = c) data))
       (seasonal_statistics data) c (fetch_temperature_sync resp)"
proof -
  let ?cd = "\<lparr>rows = filter (\<lambda>r. city r = c) data,
               moving_avg = None, moving_std = None, anomaly = None\<rparr>"
  obtain d1 where d1: "calculate_moving_average ?cd 30 = Inr d1" "rows d1 = rows ?cd"
    "moving_avg d1 \<noteq> None" "moving_std d1 \<noteq> None"
    by (simp add: calculate_moving_average_def Let_def)
  obtain d2 where d2: "detect_anomalies d1 = Inr d2" "rows d2 = rows d1"
    using detect_anomalies_after_baseline [OF d1(3,4)] by blast
  have "main data c resp =
        current_temperature_monitoring d2 (seasonal_statistics data) c (fetch_temperature_sync resp)"
    by (simp add: main_def d1(1) d2(1))
  also have "\<dots> = current_temperature_monitoring (sample_frame (filter (\<lambda>r. city r = c) data))
       (seasonal_statistics data) c (fetch_temperature_sync resp)"
    by (rule monitoring_rows_cong) (simp add: d2(2) d1(2) sample_frame_def)
  finally show ?thesis .
qed

lemma fetch_401:
  "fetch_temperature_sync \<lparr>status_code = 401, body_temp = t\<rparr> =
     ErrorDict 401
       ''Invalid API key. Please see https://openweathermap.org/faq#error401 for more info.''"
  by (simp add: fetch_temperature_sync_def)

text \<open>
  The statistics are computed from the data set the slice is taken from, so the selection of
  the city and of the season of the slice's first row holds exactly one row: in \<open>main\<close>
  the \<open>IndexError\<close> of \<open>.values[0]\<close> cannot arise.
\<close>

lemma main_stat_found:
  assumes "filter (\<lambda>r. city r = c) data = r # rs"
  shows "filter (\<lambda>st. s_city st = c \<and> s_season st = season r) (seasonal_statistics data) =
     [\<lparr>s_city = c, s_season = season r, mean = agg_mean (group_values data (c, season r)),
       std = agg_std (group_values data (c, season r))\<rparr>]"
proof -
  have "r \<in> set (filter (\<lambda>r. city r = c) data)"
    by (simp add: assms)
  then have "r \<in> set data" "city r = c"
    by simp_all
  then have "(c, season r) \<in> group_key ` set data"
    by (auto simp: group_key_def image_iff)
  then show ?thesis
    by (simp add: seasonal_statistics_lookup)
qed

section \<open>The anomaly classifier\<close>

text \<open>
  Claim C1. On a frame whose \<open>moving_avg\<close> and \<open>moving_std\<close> columns are present and as
  long as the frame, \<open>detect_anomalies\<close> succeeds, and the flag of every position \<open>i\<close> is
  set iff both statistics of \<open>i\<close> are numbers and the temperature is strictly above
  \<open>moving_avg + 2 * moving_std\<close> or strictly below \<open>moving_avg - 2 * moving_std\<close>. So a
  position whose mean or standard deviation is NaN is never flagged, and a temperature
  equal to one of the two bounds (of a standard deviation that is not negative) is not
  flagged.
\<close>

theorem detect_anomalies_classifies:
  assumes "moving_avg data = Some avgs" and "moving_std data = Some stds"
    and "length avgs = length (rows data)" and "length stds = length (rows data)"
    and "i < length (rows data)"
  shows "\<exists>data' flags.
           detect_anomalies data = Inr data' \<and> rows data' = rows data \<and>
           anomaly data' = Some flags \<and> length flags = length (rows data) \<and>
           (flags ! i \<longleftrightarrow>
              (\<exists>m s. avgs ! i = Fin m \<and> stds ! i = Fin s \<and>
                 (temperature (rows data ! i) > m + 2 * s \<or>
                  temperature (rows data ! i) < m - 2 * s))) \<and>
           (avgs ! i = NaN \<or> stds ! i = NaN \<longrightarrow> \<not> flags ! i) \<and>
           (\<forall>m s. avgs ! i = Fin m \<and> stds ! i = Fin s \<and> 0 \<le> s \<and>
              (temperature (rows data ! i) = m + 2 * s \<or>
               temperature (rows data ! i) = m - 2 * s) \<longrightarrow> \<not> flags ! i)"
  using assms
  by (auto simp: detect_anomalies_def is_anomaly_iff)

theorem detect_anomalies_classifies_witness:
  "\<exists>data' flags.
     detect_anomalies
       ((sample_frame [sample_reading ''A'' 0 ''w'' 10, sample_reading ''A'' 1 ''w'' 30])
          \<lparr>moving_avg := Some [NaN, Fin 20], moving_std := Some [NaN, Fin 4]\<rparr>) = Inr data' \<and>
     anomaly data' = Some flags \<and> length flags = 2 \<and> flags ! 1"
  using detect_anomalies_classifies
    [of "(sample_frame [sample_reading ''A'' 0 ''w'' 10, sample_reading ''A'' 1 ''w'' 30])
          \<lparr>moving_avg := Some [NaN, Fin 20], moving_std := Some [NaN, Fin 4]\<rparr>"
        "[NaN, Fin 20]" "[NaN, Fin 4]" 1]
  by (auto simp: sample_frame_def sample_reading_def)

section \<open>The rolling baseline\<close>

text \<open>
  Claim C2, as amended. For every frame of \<open>n\<close> rows and every window \<open>w \<ge> 0\<close>,
  \<open>calculate_moving_average\<close> succeeds, keeps the rows as they are and in their order, and
  assigns a \<open>moving_avg\<close> and a \<open>moving_std\<close> column of \<open>n\<close> values each. Both are NaN at
  every position before \<open>w - 1\<close>. For \<open>w \<ge> 2\<close> both are numbers from position \<open>w - 1\<close> on.
  For \<open>w = 1\<close> the moving mean is defined everywhere (it is the temperature itself), but the
  moving standard deviation is NaN everywhere: the sample standard deviation of a single
  value has divisor \<open>0\<close>.
\<close>

theorem calculate_moving_average_shape:
  assumes "0 \<le> window"
  shows "\<exists>data' avgs stds.
           calculate_moving_average data window = Inr data' \<and> rows data' = rows data \<and>
           moving_avg data' = Some avgs \<and> moving_std data' = Some stds \<and>
           length avgs = length (rows data) \<and> length stds = length (rows data) \<and>
           (\<forall>i < length (rows data). int i < window - 1 \<longrightarrow> avgs ! i = NaN \<and> stds ! i = NaN) \<and>
           (\<forall>i < length (rows data). 2 \<le> window \<and> window - 1 \<le> int i \<longrightarrow>
              avgs ! i \<noteq> NaN \<and> stds ! i \<noteq> NaN) \<and>
           (\<forall>i < length (rows data). window = 1 \<longrightarrow>
              avgs ! i = Fin (temperature (rows data ! i)) \<and> stds ! i = NaN)"
proof -
  let ?xs = "map temperature (rows data)"
  let ?w = "nat window"
  have early: "rolling_mean ?xs ?w ! i = NaN \<and> rolling_std ?xs ?w ! i = NaN"
    if "i < length (rows data)" and "int i < window - 1" for i
    using that by (simp add: rolling_mean_nth rolling_std_nth)
  have late: "rolling_mean ?xs ?w ! i \<noteq> NaN \<and> rolling_std ?xs ?w ! i \<noteq> NaN"
    if "i < length (rows data)" and "2 \<le> window" and "window - 1 \<le> int i" for i
    using that by (simp add: rolling_mean_nth rolling_std_nth)
  have one: "rolling_mean ?xs ?w ! i = Fin (temperature (rows data ! i)) \<and>
             rolling_std ?xs ?w ! i = NaN"
    if "i < length (rows data)" and "window = 1" for i
    using that by (simp add: rolling_mean_nth rolling_std_nth mean_of_window)
  show ?thesis
    using early late one by (simp add: calculate_moving_average_Inr [OF assms])
qed

theorem calculate_moving_average_shape_witness:
  "\<exists>data' avgs stds.
     calculate_moving_average
       (sample_frame [sample_reading ''A'' 0 ''w'' 1, sample_reading ''A'' 1 ''w'' 3]) 2 = Inr data' \<and>
     moving_avg data' = Some avgs \<and> moving_std data' = Some stds \<and>
     length avgs = 2 \<and> avgs ! 0 = NaN \<and> stds ! 0 = NaN \<and> avgs ! 1 \<noteq> NaN \<and> stds ! 1 \<noteq> NaN"
  using calculate_moving_average_shape
    [of 2 "sample_frame [sample_reading ''A'' 0 ''w'' 1, sample_reading ''A'' 1 ''w'' 3]"]
  by (auto simp: sample_frame_def sample_reading_def)

text \<open>
  The claim as first stated (for \<open>w = 1\<close> no point is undefined) fails: with a window of
  \<open>1\<close> the only row of a one-row frame gets an undefined moving standard deviation.
\<close>

theorem window_one_std_undefined:
  "calculate_moving_average (sample_frame [sample_reading ''A'' 0 ''w'' 5]) 1 =
     Inr ((sample_frame [sample_reading ''A'' 0 ''w'' 5])
            \<lparr>moving_avg := Some [Fin 5], moving_std := Some [NaN]\<rparr>)"
  by (simp add: calculate_moving_average_def rolling_mean_def rolling_std_def
      window_values_def mean_of_def sample_frame_def sample_reading_def)

text \<open>
  Claim C3. For a window \<open>w \<ge> 1\<close> and a position \<open>i \<ge> w - 1\<close> of the frame, the moving
  mean at \<open>i\<close> is the arithmetic mean of the temperatures at positions \<open>i - w + 1\<close> to
  \<open>i\<close>, and the moving standard deviation at \<open>i\<close> is their sample standard deviation with
  divisor \<open>w - 1\<close>: the square root of the sum of squared deviations from that mean over
  \<open>w - 1\<close>, which is undefined (NaN) for \<open>w = 1\<close>, where the divisor is \<open>0\<close>.
\<close>

theorem rolling_statistics_values:
  assumes "1 \<le> window" and "window - 1 \<le> int i" and "i < length (rows data)"
  shows "\<exists>data' avgs stds.
           calculate_moving_average data window = Inr data' \<and>
           moving_avg data' = Some avgs \<and> moving_std data' = Some stds \<and>
           avgs ! i =
             Fin ((\<Sum>j = Suc i - nat window..i. temperature (rows data ! j)) / real_of_int window) \<and>
           stds ! i =
             (if window = 1 then NaN
              else Fin (sqrt
                ((\<Sum>j = Suc i - nat window..i.
                    (temperature (rows data ! j) -
                     (\<Sum>k = Suc i - nat window..i. temperature (rows data ! k)) /
                       real_of_int window)\<^sup>2) /
                 real_of_int (window - 1))))"
proof -
  let ?xs = "map temperature (rows data)"
  let ?w = "nat window"
  have w: "?w \<le> Suc i" "0 < ?w" and i: "i < length ?xs"
    using assms by auto
  have nth: "f (?xs ! j) = f (temperature (rows data ! j))" if "j \<in> {Suc i - ?w..i}"
    for j and f :: "real \<Rightarrow> real"
    using that assms(3) by simp
  have sumeq: "(\<Sum>j = Suc i - ?w..i. f (?xs ! j)) =
               (\<Sum>j = Suc i - ?w..i. f (temperature (rows data ! j)))" for f :: "real \<Rightarrow> real"
    by (rule sum.cong [OF refl]) (rule nth)
  have rw: "real ?w = real_of_int window" "real (?w - 1) = real_of_int (window - 1)"
    using assms(1) by (simp_all add: of_nat_diff)
  have m: "mean_of (window_values ?xs ?w i) =
           (\<Sum>j = Suc i - ?w..i. temperature (rows data ! j)) / real_of_int window"
    unfolding mean_of_window [OF i w(1)] sumeq [of "\<lambda>x. x"] rw ..
  have v: "var_of 1 (window_values ?xs ?w i) =
           (\<Sum>j = Suc i - ?w..i.
               (temperature (rows data ! j) -
                (\<Sum>k = Suc i - ?w..i. temperature (rows data ! k)) / real_of_int window)\<^sup>2) /
             real_of_int (window - 1)"
    unfolding var_of_window [OF i w(1)] sumeq [of "\<lambda>x. x"] rw
    by (simp only: sumeq [of "\<lambda>x. (x - (\<Sum>k = Suc i - ?w..i. temperature (rows data ! k)) / real_of_int window)\<^sup>2"])
  have a: "rolling_mean ?xs ?w ! i = Fin (mean_of (window_values ?xs ?w i))"
    using w i by (simp add: rolling_mean_nth)
  have s: "rolling_std ?xs ?w ! i =
           (if window = 1 then NaN else Fin (sqrt (var_of 1 (window_values ?xs ?w i))))"
    using w i assms(1) by (auto simp: rolling_std_nth)
  have A: "rolling_mean ?xs ?w ! i =
           Fin ((\<Sum>j = Suc i - ?w..i. temperature (rows data ! j)) / real_of_int window)"
    unfolding a m ..
  have S: "rolling_std ?xs ?w ! i =
           (if window = 1 then NaN
            else Fin (sqrt
              ((\<Sum>j = Suc i - ?w..i.
                  (temperature (rows data ! j) -
                   (\<Sum>k = Suc i - ?w..i. temperature (rows data ! k)) / real_of_int window)\<^sup>2) /
               real_of_int (window - 1))))"
    unfolding s v ..
  have "0 \<le> window"
    using assms(1) by simp
  from calculate_moving_average_Inr [OF this, of data] A S show ?thesis
    by simp
qed

theorem rolling_statistics_values_witness:
  "\<exists>data' avgs stds.
     calculate_moving_average
       (sample_frame [sample_reading ''A'' 0 ''w'' 1, sample_reading ''A'' 1 ''w'' 3]) 2 = Inr data' \<and>
     moving_avg data' = Some avgs \<and> moving_std data' = Some stds \<and>
     avgs ! 1 = Fin 2 \<and> stds ! 1 = Fin (sqrt 2)"
  using rolling_statistics_values
    [of 2 1 "sample_frame [sample_reading ''A'' 0 ''w'' 1, sample_reading ''A'' 1 ''w'' 3]"]
  by (auto simp: sample_frame_def sample_reading_def numeral_2_eq_2)

text \<open>
  Claim C8, as amended. \<open>calculate_moving_average\<close> does change the frame it is given:
  it assigns (or overwrites) the columns \<open>moving_avg\<close> and \<open>moving_std\<close> of the caller's
  frame and returns that frame. Nothing else changes: the rows (city, timestamp, season and
  temperature of every reading) and the \<open>anomaly\<close> column are as before, and the frame after
  the call is the frame before it with those two columns set. Calling it again on the
  resulting frame yields the same frame.
\<close>

theorem calculate_moving_average_frame:
  assumes "calculate_moving_average data window = Inr data'"
  shows "rows data' = rows data \<and> anomaly data' = anomaly data \<and>
         data' = data\<lparr>moving_avg := moving_avg data', moving_std := moving_std data'\<rparr> \<and>
         moving_avg data' \<noteq> None \<and> moving_std data' \<noteq> None \<and>
         calculate_moving_average data' window = Inr data'"
  using assms
  by (auto simp: calculate_moving_average_def Let_def split: if_splits)

theorem calculate_moving_average_frame_witness:
  "rows ((sample_frame [sample_reading ''A'' 0 ''w'' 5])
            \<lparr>moving_avg := Some [Fin 5], moving_std := Some [NaN]\<rparr>) =
     rows (sample_frame [sample_reading ''A'' 0 ''w'' 5]) \<and>
   calculate_moving_average
     ((sample_frame [sample_reading ''A'' 0 ''w'' 5])
        \<lparr>moving_avg := Some [Fin 5], moving_std := Some [NaN]\<rparr>) 1 =
     Inr ((sample_frame [sample_reading ''A'' 0 ''w'' 5])
            \<lparr>moving_avg := Some [Fin 5], moving_std := Some [NaN]\<rparr>)"
proof -
  have "calculate_moving_average (sample_frame [sample_reading ''A'' 0 ''w'' 5]) 1 =
     Inr ((sample_frame [sample_reading ''A'' 0 ''w'' 5])
            \<lparr>moving_avg := Some [Fin 5], moving_std := Some [NaN]\<rparr>)"
    by (simp add: calculate_moving_average_def rolling_mean_def rolling_std_def
        window_values_def mean_of_def sample_frame_def sample_reading_def)
  from calculate_moving_average_frame [OF this] show ?thesis
    by simp
qed

text \<open>
  The claim as first stated (no side effects) fails: after the call the caller's frame holds
  two columns it did not hold before.
\<close>

theorem calculate_moving_average_mutates:
  "calculate_moving_average (sample_frame [sample_reading ''A'' 0 ''w'' 5]) 30 =
     Inr ((sample_frame [sample_reading ''A'' 0 ''w'' 5])
            \<lparr>moving_avg := Some [NaN], moving_std := Some [NaN]\<rparr>) \<and>
   (sample_frame [sample_reading ''A'' 0 ''w'' 5])
      \<lparr>moving_avg := Some [NaN], moving_std := Some [NaN]\<rparr> \<noteq>
     sample_frame [sample_reading ''A'' 0 ''w'' 5]"
  by (simp add: calculate_moving_average_def rolling_mean_def rolling_std_def
      window_values_def sample_frame_def sample_reading_def)

section \<open>The seasonal aggregator\<close>

text \<open>
  Claim C5. The rows of \<open>seasonal_statistics\<close> carry exactly the (city, season) pairs that
  occur in the data set, each pair once, and the mean of every row is the arithmetic mean of
  the temperatures of all readings of the whole data set with that city and season (a group
  that is never empty).
\<close>

theorem seasonal_statistics_groups:
  "set (map (\<lambda>st. (s_city st, s_season st)) (seasonal_statistics data)) =
     set (map (\<lambda>r. (city r, season r)) data) \<and>
   distinct (map (\<lambda>st. (s_city st, s_season st)) (seasonal_statistics data)) \<and>
   (\<forall>st \<in> set (seasonal_statistics data).
      let ts = map temperature (filter (\<lambda>r. city r = s_city st \<and> season r = s_season st) data)
      in ts \<noteq> [] \<and> mean st = Fin (sum_list ts / real (length ts)))"
proof (intro conjI ballI)
  show "set (map (\<lambda>st. (s_city st, s_season st)) (seasonal_statistics data)) =
     set (map (\<lambda>r. (city r, season r)) data)"
    unfolding seasonal_statistics_keys by (simp add: group_key_def [abs_def])
  show "distinct (map (\<lambda>st. (s_city st, s_season st)) (seasonal_statistics data))"
    unfolding seasonal_statistics_keys by simp
next
  fix st assume "st \<in> set (seasonal_statistics data)"
  then obtain k where k: "k \<in> group_key ` set data"
    and st: "st = \<lparr>s_city = fst k, s_season = snd k,
               mean = agg_mean (group_values data k), std = agg_std (group_values data k)\<rparr>"
    by (auto simp: seasonal_statistics_def)
  from k obtain r where "r \<in> set data" "group_key r = k"
    by auto
  then have ne: "group_values data k \<noteq> []"
    by (auto simp: group_values_def filter_empty_conv)
  have gv: "group_values data k =
      map temperature (filter (\<lambda>r. city r = s_city st \<and> season r = s_season st) data)"
    using group_values_eq [of data "fst k" "snd k"] by (simp add: st)
  show "let ts = map temperature (filter (\<lambda>r. city r = s_city st \<and> season r = s_season st) data)
      in ts \<noteq> [] \<and> mean st = Fin (sum_list ts / real (length ts))"
    unfolding Let_def gv [symmetric] using ne by (simp add: st agg_mean_def mean_of_def)
qed

theorem seasonal_statistics_groups_witness:
  "set (map (\<lambda>st. (s_city st, s_season st)) (seasonal_statistics sample_data)) =
     {(''A'', ''w''), (''B'', ''w''), (''A'', ''s'')} \<and>
   mean \<lparr>s_city = ''A'', s_season = ''w'', mean = Fin 3, std = Fin 3\<rparr> =
     Fin (sum_list [0, 3, 6] / real (length [0, 3, 6 :: real]))"
proof -
  note t = seasonal_statistics_groups [of sample_data]
  have mem: "\<lparr>s_city = ''A'', s_season = ''w'', mean = Fin 3, std = Fin 3\<rparr>
               \<in> set (seasonal_statistics sample_data)"
    by (simp add: seasonal_statistics_sample)
  have gv: "map temperature (filter (\<lambda>r. city r = ''A'' \<and> season r = ''w'') sample_data) = [0, 3, 6]"
    using gv1 by (simp only: group_values_eq)
  have keys: "set (map (\<lambda>r. (city r, season r)) sample_data) =
              {(''A'', ''w''), (''B'', ''w''), (''A'', ''s'')}"
    by (simp add: sample_data_def sample_reading_def insert_commute)
  from t [THEN conjunct1] keys
  have 1: "set (map (\<lambda>st. (s_city st, s_season st)) (seasonal_statistics sample_data)) =
     {(''A'', ''w''), (''B'', ''w''), (''A'', ''s'')}"
    by (rule trans)
  from bspec [OF t [THEN conjunct2, THEN conjunct2] mem]
  have 2: "mean \<lparr>s_city = ''A'', s_season = ''w'', mean = Fin 3, std = Fin 3\<rparr> =
     Fin (sum_list [0, 3, 6] / real (length [0, 3, 6 :: real]))"
    by (simp only: Let_def seasonal_stat.simps gv)
  from 1 2 show ?thesis ..
qed

section \<open>The live reading\<close>

text \<open>
  Claim C4. When the city's slice has a first row and the seasonal statistics have a row
  \<open>st\<close> for the city and that row's season, a numeric reading \<open>t\<close> is reported within
  the normal range iff \<open>mean - 2 * std \<le> t \<le> mean + 2 * std\<close>, both ends included (the
  comparison being false when a bound is NaN), and outside it otherwise. A reading equal
  to the mean is within the range for every standard deviation \<open>s \<ge> 0\<close>.
\<close>

theorem live_reading_range:
  assumes "rows city_data = r # rs"
    and "filter (\<lambda>st. s_city st = c \<and> s_season st = season r) season_stats = st # sts"
  shows "current_temperature_monitoring city_data season_stats c (Temp t) =
           ([CurrentTemperature c (Temp t),
             if (\<exists>m s. mean st = Fin m \<and> std st = Fin s \<and> m - 2 * s \<le> t \<and> t \<le> m + 2 * s)
             then WithinNormalRange else OutsideNormalRange], None) \<and>
         (\<forall>s. mean st = Fin t \<and> std st = Fin s \<and> 0 \<le> s \<longrightarrow>
            current_temperature_monitoring city_data season_stats c (Temp t) =
              ([CurrentTemperature c (Temp t), WithinNormalRange], None))"
  using assms
  by (auto simp: current_temperature_monitoring_def in_normal_range_iff)

theorem live_reading_range_witness:
  "current_temperature_monitoring (sample_frame [sample_reading ''A'' 0 ''w'' 10])
     [\<lparr>s_city = ''A'', s_season = ''w'', mean = Fin 15, std = Fin 3\<rparr>] ''A'' (Temp 21) =
     ([CurrentTemperature ''A'' (Temp 21), WithinNormalRange], None)"
  using live_reading_range
    [of "sample_frame [sample_reading ''A'' 0 ''w'' 10]"
      "sample_reading ''A'' 0 ''w'' 10" "[]" "''A''"
      "[\<lparr>s_city = ''A'', s_season = ''w'', mean = Fin 15, std = Fin 3\<rparr>]"
      "\<lparr>s_city = ''A'', s_season = ''w'', mean = Fin 15, std = Fin 3\<rparr>" "[]" 21]
  by (simp add: sample_frame_def sample_reading_def)

text \<open>
  Claim C9. When exactly one reading of the data set has city \<open>c\<close> and season \<open>s\<close>, the
  seasonal statistics hold one row for \<open>(c, s)\<close>, with the reading's temperature as mean and
  NaN as standard deviation: no \<open>0\<close>, and no error. Monitoring city \<open>c\<close> from a slice whose
  first row has season \<open>s\<close> then reports every numeric reading as outside the normal range,
  since a comparison with either bound (both NaN) is false.
\<close>

theorem single_reading_group:
  assumes "filter (\<lambda>r. city r = c \<and> season r = s) data = [r0]"
  shows "filter (\<lambda>st. s_city st = c \<and> s_season st = s) (seasonal_statistics data) =
           [\<lparr>s_city = c, s_season = s, mean = Fin (temperature r0), std = NaN\<rparr>] \<and>
         (\<forall>city_data r rs t. rows city_data = r # rs \<and> season r = s \<longrightarrow>
            current_temperature_monitoring city_data (seasonal_statistics data) c (Temp t) =
              ([CurrentTemperature c (Temp t), OutsideNormalRange], None)) \<and>
         (\<forall>t. \<not> fle (fsub (Fin (temperature r0)) (fmul (Fin 2) NaN)) (Fin t) \<and>
              \<not> fle (Fin t) (fadd (Fin (temperature r0)) (fmul (Fin 2) NaN)))"
proof -
  have "r0 \<in> set (filter (\<lambda>r. city r = c \<and> season r = s) data)"
    by (simp add: assms)
  then have "(c, s) \<in> group_key ` set data"
    by (auto simp: group_key_def image_iff)
  moreover have "group_values data (c, s) = [temperature r0]"
    by (simp add: group_values_eq assms)
  ultimately have look:
    "filter (\<lambda>st. s_city st = c \<and> s_season st = s) (seasonal_statistics data) =
           [\<lparr>s_city = c, s_season = s, mean = Fin (temperature r0), std = NaN\<rparr>]"
    by (simp add: seasonal_statistics_lookup agg_single)
  have "current_temperature_monitoring city_data (seasonal_statistics data) c (Temp t) =
              ([CurrentTemperature c (Temp t), OutsideNormalRange], None)"
    if "rows city_data = r # rs" and "season r = s" for city_data r rs t
    using that look by (simp add: current_temperature_monitoring_def in_normal_range_NaN)
  with look show ?thesis
    by simp
qed

theorem single_reading_group_witness:
  "filter (\<lambda>st. s_city st = ''B'' \<and> s_season st = ''w'') (seasonal_statistics sample_data) =
     [\<lparr>s_city = ''B'', s_season = ''w'', mean = Fin 7, std = NaN\<rparr>] \<and>
   main sample_data ''B'' \<lparr>status_code = 200, body_temp = 7\<rparr> =
     ([CurrentTemperature ''B'' (Temp 7), OutsideNormalRange], None)"
proof -
  have f: "filter (\<lambda>r. city r = ''B'' \<and> season r = ''w'') sample_data =
           [sample_reading ''B'' 0 ''w'' 7]"
    by (simp add: sample_data_def sample_reading_def)
  note t = single_reading_group [OF f]
  have rows: "rows (sample_frame (filter (\<lambda>r. city r = ''B'') sample_data)) =
              sample_reading ''B'' 0 ''w'' 7 # [] \<and> season (sample_reading ''B'' 0 ''w'' 7) = ''w''"
    by (simp add: sample_data_def sample_reading_def sample_frame_def)
  have m: "main sample_data ''B'' \<lparr>status_code = 200, body_temp = 7\<rparr> =
     ([CurrentTemperature ''B'' (Temp 7), OutsideNormalRange], None)"
    unfolding main_eq
    using t [THEN conjunct2, THEN conjunct1, rule_format, OF rows, of 7]
    by (simp add: fetch_temperature_sync_def)
  from t [THEN conjunct1] m show ?thesis
    by (simp add: sample_reading_def)
qed

text \<open>
  Claim C10. With a response of status 200, \<open>main\<close> compares the reading with the
  statistics of the selected city and the season of the first row of the city's slice (the
  rows of the data set with that city, in the order of the data set); that row always has
  statistics. When the slice is ordered by ascending timestamp, its first row is the earliest
  record, not the most recent one.
\<close>

theorem season_of_first_row:
  assumes "filter (\<lambda>r. city r = c) data = r # rs" and "status_code resp = 200"
  shows "\<exists>st. filter (\<lambda>st. s_city st = c \<and> s_season st = season r) (seasonal_statistics data) = [st] \<and>
           main data c resp =
             ([CurrentTemperature c (Temp (body_temp resp)),
               if in_normal_range (mean st) (std st) (body_temp resp)
               then WithinNormalRange else OutsideNormalRange], None) \<and>
           (sorted (map timestamp (r # rs)) \<longrightarrow> (\<forall>r' \<in> set (r # rs). timestamp r \<le> timestamp r'))"
proof -
  have "sorted (map timestamp (r # rs)) \<longrightarrow> (\<forall>r' \<in> set (r # rs). timestamp r \<le> timestamp r')"
    by auto
  then show ?thesis
    unfolding main_eq
    by (simp add: main_stat_found [OF assms(1)] current_temperature_monitoring_def
        sample_frame_def assms fetch_temperature_sync_def)
qed

theorem season_of_first_row_witness:
  "main sample_data ''A'' \<lparr>status_code = 200, body_temp = 21\<rparr> =
     ([CurrentTemperature ''A'' (Temp 21), OutsideNormalRange], None) \<and>
   season (hd (filter (\<lambda>r. city r = ''A'') sample_data)) = ''w'' \<and>
   season (last (filter (\<lambda>r. city r = ''A'') sample_data)) = ''s'' \<and>
   in_normal_range (Fin 23) (Fin 3) 21"
proof -
  have f: "filter (\<lambda>r. city r = ''A'') sample_data =
      sample_reading ''A'' 0 ''w'' 0 #
      [sample_reading ''A'' 1 ''w'' 3, sample_reading ''A'' 2 ''w'' 6,
       sample_reading ''A'' 3 ''s'' 20, sample_reading ''A'' 4 ''s'' 23,
       sample_reading ''A'' 5 ''s'' 26]"
    by (simp add: sample_data_def sample_reading_def)
  have look: "filter (\<lambda>st. s_city st = ''A'' \<and> s_season st = ''w'') (seasonal_statistics sample_data) =
      [\<lparr>s_city = ''A'', s_season = ''w'', mean = Fin 3, std = Fin 3\<rparr>]"
    by (simp add: seasonal_statistics_sample)
  from season_of_first_row [OF f, of "\<lparr>status_code = 200, body_temp = 21\<rparr>"] look
  have "main sample_data ''A'' \<lparr>status_code = 200, body_temp = 21\<rparr> =
     ([CurrentTemperature ''A'' (Temp 21), OutsideNormalRange], None)"
    by (auto simp: sample_reading_def in_normal_range_iff)
  then show ?thesis
    by (simp add: f sample_reading_def in_normal_range_iff)
qed

section \<open>The result of the fetch\<close>

text \<open>
  Claim C6. The claim asks that every result of the fetch that is not a number leads to no
  assessment. For a response of status 401 the fetch returns a dictionary, which is not
  \<open>None\<close>: \<open>main\<close> writes it as the current temperature, looks the statistics up and fails
  with \<open>TypeError\<close> when it compares the bounds with the dictionary, instead of writing the
  "failed to fetch" line that a response of status 500 gets.
\<close>

theorem invalid_api_key_is_assessed:
  "main sample_data ''A'' \<lparr>status_code = 401, body_temp = 0\<rparr> =
     ([CurrentTemperature ''A''
         (ErrorDict 401
            ''Invalid API key. Please see https://openweathermap.org/faq#error401 for more info.'')],
      Some TypeError) \<and>
   main sample_data ''A'' \<lparr>status_code = 500, body_temp = 0\<rparr> = ([FailedToFetch], None)"
  unfolding main_eq fetch_401 seasonal_statistics_sample
  by (simp add: current_temperature_monitoring_def sample_frame_def sample_data_def
      sample_reading_def fetch_temperature_sync_def)

end
